theory Spec2Isabelle
  imports Main "HOL-Library.Multiset"
begin

section \<open>Python values, exceptions and outcomes\<close>

text \<open>
  The arguments whose Python type the code inspects with \<^verbatim>\<open>isinstance\<close> are values of
  \<open>py_value\<close>. \<open>PyBytes\<close> is a \<^verbatim>\<open>bytes\<close> object, \<open>PyStr\<close> a \<^verbatim>\<open>str\<close>.
\<close>

datatype py_value = PyBytes string | PyStr string | PyInt int | PyNone

datatype error = IntegrityError | OperationalError | AssertionError | TypeError | ValidationError

section \<open>payment\_id.py\<close>

datatype PaymentId = PaymentId (payment_id: string)

text \<open>
  \<^verbatim>\<open>PaymentId.__init__\<close>: the only check is \<^verbatim>\<open>isinstance(payment_id, str)\<close>, and the
  exception raised is \<^verbatim>\<open>TypeError\<close>.
\<close>

fun PaymentId_init :: "py_value \<Rightarrow> error + PaymentId" where
  "PaymentId_init (PyStr s) = Inr (PaymentId s)"
| "PaymentId_init v = Inl TypeError"

section \<open>database.py: the rows of the schema\<close>

type_synonym trader_id = string
type_synonym order_id = "trader_id \<times> int"
type_synonym transaction_id = string

record orders_row =
  orders_trader_id :: string
  orders_order_number :: int
  orders_asset1_amount :: int
  orders_asset1_type :: string
  orders_asset2_amount :: int
  orders_asset2_type :: string
  orders_traded_quantity :: int
  orders_received_quantity :: int
  orders_timeout :: int
  orders_order_timestamp :: int
  orders_completed_timestamp :: "int option"
  orders_is_ask :: bool
  orders_cancelled :: bool
  orders_verified :: bool

record transactions_row =
  transactions_trader_id :: string
  transactions_transaction_id :: string
  transactions_order_number :: int
  transactions_partner_trader_id :: string
  transactions_partner_order_number :: int
  transactions_asset1_amount :: int
  transactions_asset1_type :: string
  transactions_asset1_transferred :: int
  transactions_asset2_amount :: int
  transactions_asset2_type :: string
  transactions_asset2_transferred :: int
  transactions_transaction_timestamp :: int
  transactions_sent_wallet_info :: bool
  transactions_received_wallet_info :: bool
  transactions_incoming_address :: string
  transactions_outgoing_address :: string
  transactions_partner_incoming_address :: string
  transactions_partner_outgoing_address :: string

record payments_row =
  payments_trader_id :: string
  payments_transaction_id :: string
  payments_payment_id :: string
  payments_transferred_amount :: int
  payments_transferred_type :: string
  payments_address_from :: string
  payments_address_to :: string
  payments_timestamp :: int

record ticks_row =
  ticks_trader_id :: string
  ticks_order_number :: int
  ticks_asset1_amount :: int
  ticks_asset1_type :: string
  ticks_asset2_amount :: int
  ticks_asset2_type :: string
  ticks_timeout :: int
  ticks_timestamp :: int
  ticks_is_ask :: bool
  ticks_traded :: int
  ticks_block_hash :: string

record orders_reserved_ticks_row =
  reserved_trader_id_of :: string
  reserved_order_number_of :: int
  reserved_trader_id :: string
  reserved_order_number :: int
  reserved_quantity :: int

text \<open>The primary keys declared by the schema.\<close>

definition orders_key :: "orders_row \<Rightarrow> order_id" where
  "orders_key r = (orders_trader_id r, orders_order_number r)"

definition payments_key :: "payments_row \<Rightarrow> string \<times> string \<times> string" where
  "payments_key r = (payments_trader_id r, payments_payment_id r, payments_transaction_id r)"

definition ticks_key :: "ticks_row \<Rightarrow> order_id" where
  "ticks_key r = (ticks_trader_id r, ticks_order_number r)"

definition reserved_owner :: "orders_reserved_ticks_row \<Rightarrow> order_id" where
  "reserved_owner r = (reserved_trader_id_of r, reserved_order_number_of r)"

definition reserved_key :: "orders_reserved_ticks_row \<Rightarrow> order_id \<times> order_id" where
  "reserved_key r = (reserved_owner r, (reserved_trader_id r, reserved_order_number r))"

section \<open>The store: the connection's view and the committed state\<close>

text \<open>
  A table is \<open>None\<close> while it does not exist (before \<^verbatim>\<open>CREATE TABLE\<close>, after
  \<^verbatim>\<open>DROP TABLE\<close>) and otherwise the list of its rows in insertion order. The table
  \<^verbatim>\<open>traders\<close> is a table of older schemas that the upgrade script still drops; its rows
  are opaque. \<open>working\<close> is what the connection reads and writes, \<open>durable\<close> what the
  last commit left on disk.
\<close>

record tables =
  orders :: "orders_row list option"
  transactions :: "transactions_row list option"
  payments :: "payments_row list option"
  ticks :: "ticks_row list option"
  orders_reserved_ticks :: "orders_reserved_ticks_row list option"
  option_table :: "(string \<rightharpoonup> string) option"
  traders :: "string list option"

record MarketDB =
  working :: tables
  durable :: tables

datatype 'a outcome = Returned 'a MarketDB | Raised error MarketDB

fun state_of :: "'a outcome \<Rightarrow> MarketDB" where
  "state_of (Returned x db) = db"
| "state_of (Raised e db) = db"

text \<open>\<^verbatim>\<open>self.commit()\<close>: the pending changes of the connection become durable.\<close>

definition commit :: "MarketDB \<Rightarrow> MarketDB" where
  "commit db = db\<lparr>durable := working db\<rparr>"

text \<open>
  The three shapes of statement that \<^verbatim>\<open>self.execute\<close> is given, on one table.
  \<^verbatim>\<open>INSERT INTO\<close> appends the row unless a row with the same primary key is stored;
  \<^verbatim>\<open>INSERT OR IGNORE\<close> keeps the table as it is in that case; \<^verbatim>\<open>DELETE ... WHERE\<close>
  drops the matching rows; \<^verbatim>\<open>SELECT ... WHERE\<close> returns them. A statement on a
  table that does not exist raises.
\<close>

definition sql_insert :: "('r \<Rightarrow> 'k) \<Rightarrow> 'r \<Rightarrow> 'r list option \<Rightarrow> error + 'r list" where
  "sql_insert key r tbl =
     (case tbl of
        None \<Rightarrow> Inl OperationalError
      | Some rows \<Rightarrow> if key r \<in> set (map key rows) then Inl IntegrityError else Inr (rows @ [r]))"

definition sql_insert_or_ignore :: "('r \<Rightarrow> 'k) \<Rightarrow> 'r \<Rightarrow> 'r list option \<Rightarrow> error + 'r list" where
  "sql_insert_or_ignore key r tbl =
     (case tbl of
        None \<Rightarrow> Inl OperationalError
      | Some rows \<Rightarrow> if key r \<in> set (map key rows) then Inr rows else Inr (rows @ [r]))"

definition sql_delete :: "('r \<Rightarrow> bool) \<Rightarrow> 'r list option \<Rightarrow> error + 'r list" where
  "sql_delete cond tbl =
     (case tbl of None \<Rightarrow> Inl OperationalError | Some rows \<Rightarrow> Inr (filter (\<lambda>r. \<not> cond r) rows))"

definition sql_select :: "('r \<Rightarrow> bool) \<Rightarrow> 'r list option \<Rightarrow> error + 'r list" where
  "sql_select cond tbl =
     (case tbl of None \<Rightarrow> Inl OperationalError | Some rows \<Rightarrow> Inr (filter cond rows))"

definition sql_update :: "('r \<Rightarrow> bool) \<Rightarrow> ('r \<Rightarrow> 'r) \<Rightarrow> 'r list option \<Rightarrow> error + 'r list" where
  "sql_update cond upd tbl =
     (case tbl of
        None \<Rightarrow> Inl OperationalError
      | Some rows \<Rightarrow> Inr (map (\<lambda>r. if cond r then upd r else r) rows))"


section \<open>The entities handed to the store\<close>

text \<open>
  Modelled from the spec: the classes \<^verbatim>\<open>Order\<close>, \<^verbatim>\<open>Transaction\<close> and \<^verbatim>\<open>Payment\<close>
  (anydex/core/order.py, transaction.py and payment.py are not among the sources). The
  store reads \<^verbatim>\<open>order.order_id\<close>, \<^verbatim>\<open>order.reserved_ticks.items()\<close>,
  \<^verbatim>\<open>transaction.transaction_id\<close>, \<^verbatim>\<open>transaction.assets\<close>,
  \<^verbatim>\<open>transaction.transferred_assets\<close>, \<^verbatim>\<open>transaction.timestamp\<close>,
  \<^verbatim>\<open>transaction.payments\<close> and the row that \<^verbatim>\<open>to_database()\<close> returns. The fields are
  those of section 3 of the specification, and \<^verbatim>\<open>to_database\<close> writes each field to the
  column of the same name. A timestamp is its integer value, so \<^verbatim>\<open>int(timestamp)\<close> is the
  field itself. The reservation dictionary is the list of its items in iteration order.
\<close>

record Payment =
  payment_trader_id :: trader_id
  payment_transaction_id :: transaction_id
  payment_payment_id :: string
  payment_transferred_amount :: int
  payment_transferred_type :: string
  payment_address_from :: string
  payment_address_to :: string
  payment_timestamp :: int

record Order =
  order_id :: order_id
  order_assets_first_amount :: int
  order_assets_first_type :: string
  order_assets_second_amount :: int
  order_assets_second_type :: string
  traded_quantity :: int
  received_quantity :: int
  timeout :: int
  order_timestamp :: int
  completed_timestamp :: "int option"
  is_ask :: bool
  cancelled :: bool
  verified :: bool
  reserved_ticks :: "(order_id \<times> int) list"

record Transaction =
  transaction_id :: transaction_id
  transaction_order_id :: order_id
  partner_order_id :: order_id
  assets_first_amount :: int
  assets_first_type :: string
  assets_second_amount :: int
  assets_second_type :: string
  transferred_assets_first_amount :: int
  transferred_assets_second_amount :: int
  timestamp :: int
  sent_wallet_info :: bool
  received_wallet_info :: bool
  incoming_address :: string
  outgoing_address :: string
  partner_incoming_address :: string
  partner_outgoing_address :: string
  payments_of :: "Payment list"

definition Payment_to_database :: "Payment \<Rightarrow> payments_row" where
  "Payment_to_database p =
     \<lparr>payments_trader_id = payment_trader_id p,
      payments_transaction_id = payment_transaction_id p,
      payments_payment_id = payment_payment_id p,
      payments_transferred_amount = payment_transferred_amount p,
      payments_transferred_type = payment_transferred_type p,
      payments_address_from = payment_address_from p,
      payments_address_to = payment_address_to p,
      payments_timestamp = payment_timestamp p\<rparr>"

definition Order_to_database :: "Order \<Rightarrow> orders_row" where
  "Order_to_database ord =
     \<lparr>orders_trader_id = fst (order_id ord),
      orders_order_number = snd (order_id ord),
      orders_asset1_amount = order_assets_first_amount ord,
      orders_asset1_type = order_assets_first_type ord,
      orders_asset2_amount = order_assets_second_amount ord,
      orders_asset2_type = order_assets_second_type ord,
      orders_traded_quantity = traded_quantity ord,
      orders_received_quantity = received_quantity ord,
      orders_timeout = timeout ord,
      orders_order_timestamp = order_timestamp ord,
      orders_completed_timestamp = completed_timestamp ord,
      orders_is_ask = is_ask ord,
      orders_cancelled = cancelled ord,
      orders_verified = verified ord\<rparr>"

definition Transaction_to_database :: "Transaction \<Rightarrow> transactions_row" where
  "Transaction_to_database t =
     \<lparr>transactions_trader_id = fst (transaction_order_id t),
      transactions_transaction_id = transaction_id t,
      transactions_order_number = snd (transaction_order_id t),
      transactions_partner_trader_id = fst (partner_order_id t),
      transactions_partner_order_number = snd (partner_order_id t),
      transactions_asset1_amount = assets_first_amount t,
      transactions_asset1_type = assets_first_type t,
      transactions_asset1_transferred = transferred_assets_first_amount t,
      transactions_asset2_amount = assets_second_amount t,
      transactions_asset2_type = assets_second_type t,
      transactions_asset2_transferred = transferred_assets_second_amount t,
      transactions_transaction_timestamp = timestamp t,
      transactions_sent_wallet_info = sent_wallet_info t,
      transactions_received_wallet_info = received_wallet_info t,
      transactions_incoming_address = incoming_address t,
      transactions_outgoing_address = outgoing_address t,
      transactions_partner_incoming_address = partner_incoming_address t,
      transactions_partner_outgoing_address = partner_outgoing_address t\<rparr>"

section \<open>database.py: orders and reservations\<close>

text \<open>
  Each method takes the store first, as \<^verbatim>\<open>self\<close>, and returns an outcome: the value
  returned or the exception raised, with the store as the call left it. The comparison of
  the column \<^verbatim>\<open>order_number\<close> with the parameter \<^verbatim>\<open>str(order_number)\<close> is a comparison of
  integers (the column has integer affinity).
\<close>

definition get_reserved_ticks :: "MarketDB \<Rightarrow> order_id \<Rightarrow> (order_id \<times> int) list outcome" where
  "get_reserved_ticks db oid =
     (case sql_select (\<lambda>r. reserved_owner r = oid) (orders_reserved_ticks (working db)) of
        Inl e \<Rightarrow> Raised e db
      | Inr db_results \<Rightarrow>
          Returned (map (\<lambda>data. ((reserved_trader_id data, reserved_order_number data),
                                  reserved_quantity data)) db_results) db)"

text \<open>
  \<^verbatim>\<open>get_order\<close> returns what it hands to \<^verbatim>\<open>Order.from_database\<close>: the row and the
  reserved ticks; \<open>None\<close> when \<^verbatim>\<open>next\<close> raises \<^verbatim>\<open>StopIteration\<close>.
\<close>

definition get_order ::
  "MarketDB \<Rightarrow> order_id \<Rightarrow> (orders_row \<times> (order_id \<times> int) list) option outcome" where
  "get_order db oid =
     (case sql_select (\<lambda>r. orders_key r = oid) (orders (working db)) of
        Inl e \<Rightarrow> Raised e db
      | Inr [] \<Rightarrow> Returned None db
      | Inr (db_result # _) \<Rightarrow>
          (case get_reserved_ticks db oid of
             Raised e db' \<Rightarrow> Raised e db'
           | Returned reserved db' \<Rightarrow> Returned (Some (db_result, reserved)) db'))"

definition add_reserved_tick :: "MarketDB \<Rightarrow> order_id \<Rightarrow> order_id \<Rightarrow> int \<Rightarrow> unit outcome" where
  "add_reserved_tick db oid reserved_order_id amount =
     (case sql_insert reserved_key
             \<lparr>reserved_trader_id_of = fst oid, reserved_order_number_of = snd oid,
              reserved_trader_id = fst reserved_order_id,
              reserved_order_number = snd reserved_order_id,
              reserved_quantity = amount\<rparr>
             (orders_reserved_ticks (working db)) of
        Inl e \<Rightarrow> Raised e db
      | Inr rows \<Rightarrow>
          Returned () (commit (db\<lparr>working := (working db)\<lparr>orders_reserved_ticks := Some rows\<rparr>\<rparr>)))"

text \<open>The loop of \<^verbatim>\<open>add_order\<close> over \<^verbatim>\<open>order.reserved_ticks.items()\<close>.\<close>

fun add_reserved_ticks :: "MarketDB \<Rightarrow> order_id \<Rightarrow> (order_id \<times> int) list \<Rightarrow> unit outcome" where
  "add_reserved_ticks db oid [] = Returned () db"
| "add_reserved_ticks db oid ((reserved_order_id, quantity) # items) =
     (case add_reserved_tick db oid reserved_order_id quantity of
        Raised e db' \<Rightarrow> Raised e db'
      | Returned _ db' \<Rightarrow> add_reserved_ticks db' oid items)"

definition add_order :: "MarketDB \<Rightarrow> Order \<Rightarrow> unit outcome" where
  "add_order db ord =
     (case sql_insert orders_key (Order_to_database ord) (orders (working db)) of
        Inl e \<Rightarrow> Raised e db
      | Inr rows \<Rightarrow>
          add_reserved_ticks (commit (db\<lparr>working := (working db)\<lparr>orders := Some rows\<rparr>\<rparr>))
            (order_id ord) (reserved_ticks ord))"

definition delete_reserved_ticks :: "MarketDB \<Rightarrow> order_id \<Rightarrow> unit outcome" where
  "delete_reserved_ticks db oid =
     (case sql_delete (\<lambda>r. reserved_owner r = oid) (orders_reserved_ticks (working db)) of
        Inl e \<Rightarrow> Raised e db
      | Inr rows \<Rightarrow> Returned () (db\<lparr>working := (working db)\<lparr>orders_reserved_ticks := Some rows\<rparr>\<rparr>))"

definition delete_order :: "MarketDB \<Rightarrow> order_id \<Rightarrow> unit outcome" where
  "delete_order db oid =
     (case sql_delete (\<lambda>r. orders_key r = oid) (orders (working db)) of
        Inl e \<Rightarrow> Raised e db
      | Inr rows \<Rightarrow> delete_reserved_ticks (db\<lparr>working := (working db)\<lparr>orders := Some rows\<rparr>\<rparr>) oid)"

text \<open>
  \<^verbatim>\<open>SELECT MAX(order_number) FROM orders\<close> yields one row, holding \<^verbatim>\<open>NULL\<close> when the
  table is empty. \<^verbatim>\<open>not highest_order_number[0]\<close> is true for \<^verbatim>\<open>None\<close> and for 0.
\<close>

definition sql_max :: "int list \<Rightarrow> int option" where
  "sql_max xs = (case xs of [] \<Rightarrow> None | x # ys \<Rightarrow> Some (fold max ys x))"

definition get_next_order_number :: "MarketDB \<Rightarrow> int outcome" where
  "get_next_order_number db =
     (case orders (working db) of
        None \<Rightarrow> Raised OperationalError db
      | Some rows \<Rightarrow>
          (case sql_max (map orders_order_number rows) of
             None \<Rightarrow> Returned 1 db
           | Some highest_order_number \<Rightarrow>
               if highest_order_number = 0 then Returned 1 db
               else Returned (highest_order_number + 1) db))"

section \<open>database.py: transactions and payments\<close>

definition delete_payments :: "MarketDB \<Rightarrow> transaction_id \<Rightarrow> unit outcome" where
  "delete_payments db tid =
     (case sql_delete (\<lambda>r. payments_transaction_id r = tid) (payments (working db)) of
        Inl e \<Rightarrow> Raised e db
      | Inr rows \<Rightarrow> Returned () (db\<lparr>working := (working db)\<lparr>payments := Some rows\<rparr>\<rparr>))"

definition add_payment :: "MarketDB \<Rightarrow> Payment \<Rightarrow> unit outcome" where
  "add_payment db payment =
     (case sql_insert payments_key (Payment_to_database payment) (payments (working db)) of
        Inl e \<Rightarrow> Raised e db
      | Inr rows \<Rightarrow> Returned () (commit (db\<lparr>working := (working db)\<lparr>payments := Some rows\<rparr>\<rparr>)))"

text \<open>The loop of \<^verbatim>\<open>add_transaction\<close> over \<^verbatim>\<open>transaction.payments\<close>.\<close>

fun add_payments :: "MarketDB \<Rightarrow> Payment list \<Rightarrow> unit outcome" where
  "add_payments db [] = Returned () db"
| "add_payments db (payment # rest) =
     (case add_payment db payment of
        Raised e db' \<Rightarrow> Raised e db'
      | Returned _ db' \<Rightarrow> add_payments db' rest)"

text \<open>
  \<^verbatim>\<open>ORDER BY timestamp ASC\<close> is a sort on the timestamp column; rows with equal
  timestamps keep their insertion order here.
\<close>

definition get_payments :: "MarketDB \<Rightarrow> transaction_id \<Rightarrow> payments_row list outcome" where
  "get_payments db tid =
     (case sql_select (\<lambda>r. payments_transaction_id r = tid) (payments (working db)) of
        Inl e \<Rightarrow> Raised e db
      | Inr db_result \<Rightarrow> Returned (sort_key payments_timestamp db_result) db)"

definition get_transaction ::
  "MarketDB \<Rightarrow> transaction_id \<Rightarrow> (transactions_row \<times> payments_row list) option outcome" where
  "get_transaction db tid =
     (case sql_select (\<lambda>r. transactions_transaction_id r = tid) (transactions (working db)) of
        Inl e \<Rightarrow> Raised e db
      | Inr [] \<Rightarrow> Returned None db
      | Inr (db_result # _) \<Rightarrow>
          (case get_payments db tid of
             Raised e db' \<Rightarrow> Raised e db'
           | Returned ps db' \<Rightarrow> Returned (Some (db_result, ps)) db'))"

definition add_transaction :: "MarketDB \<Rightarrow> Transaction \<Rightarrow> unit outcome" where
  "add_transaction db t =
     (case sql_insert transactions_transaction_id (Transaction_to_database t)
             (transactions (working db)) of
        Inl e \<Rightarrow> Raised e db
      | Inr rows \<Rightarrow>
          (case delete_payments (commit (db\<lparr>working := (working db)\<lparr>transactions := Some rows\<rparr>\<rparr>))
                  (transaction_id t) of
             Raised e db' \<Rightarrow> Raised e db'
           | Returned _ db' \<Rightarrow> add_payments db' (payments_of t)))"

text \<open>
  The \<^verbatim>\<open>UPDATE\<close> of \<^verbatim>\<open>insert_or_update_transaction\<close> sets five columns of every row
  whose id is the transaction's and whose stored timestamp is smaller than the incoming one.
\<close>

definition update_transaction_row :: "Transaction \<Rightarrow> transactions_row \<Rightarrow> transactions_row" where
  "update_transaction_row t r =
     r\<lparr>transactions_asset1_amount := assets_first_amount t,
       transactions_asset1_transferred := transferred_assets_first_amount t,
       transactions_asset2_amount := assets_second_amount t,
       transactions_asset2_transferred := transferred_assets_second_amount t,
       transactions_transaction_timestamp := timestamp t\<rparr>"

definition insert_or_update_transaction :: "MarketDB \<Rightarrow> Transaction \<Rightarrow> unit outcome" where
  "insert_or_update_transaction db t =
     (case sql_insert_or_ignore transactions_transaction_id (Transaction_to_database t)
             (transactions (working db)) of
        Inl e \<Rightarrow> Raised e db
      | Inr rows \<Rightarrow>
          (case sql_update (\<lambda>r. transactions_transaction_id r = transaction_id t
                                 \<and> transactions_transaction_timestamp r < timestamp t)
                  (update_transaction_row t) (Some rows) of
             Inl e \<Rightarrow> Raised e (db\<lparr>working := (working db)\<lparr>transactions := Some rows\<rparr>\<rparr>)
           | Inr rows' \<Rightarrow>
               Returned () (commit (db\<lparr>working := (working db)\<lparr>transactions := Some rows'\<rparr>\<rparr>))))"

definition delete_transaction :: "MarketDB \<Rightarrow> transaction_id \<Rightarrow> unit outcome" where
  "delete_transaction db tid =
     (case sql_delete (\<lambda>r. transactions_transaction_id r = tid) (transactions (working db)) of
        Inl e \<Rightarrow> Raised e db
      | Inr rows \<Rightarrow> delete_payments (db\<lparr>working := (working db)\<lparr>transactions := Some rows\<rparr>\<rparr>) tid)"


section \<open>database.py: the schema and the version check\<close>

definition LATEST_DB_VERSION :: int where
  "LATEST_DB_VERSION = 5"

datatype table_name =
  T_orders | T_transactions | T_payments | T_ticks | T_orders_reserved_ticks | T_option | T_traders

datatype statement =
  DROP_TABLE_IF_EXISTS table_name
| CREATE_TABLE_IF_NOT_EXISTS table_name
| INSERT_OR_REPLACE_INTO_option string string

text \<open>\<^verbatim>\<open>str\<close> of an integer, and \<^verbatim>\<open>bytes.isdigit\<close> and \<^verbatim>\<open>int\<close> of a bytes object.\<close>

definition digit_char :: "nat \<Rightarrow> char" where
  "digit_char d = ''0123456789'' ! d"

function str_nat :: "nat \<Rightarrow> string" where
  "str_nat n = (if n < 10 then [digit_char n] else str_nat (n div 10) @ [digit_char (n mod 10)])"
  by pat_completeness auto
termination
  by (relation "measure id") auto

declare str_nat.simps [simp del]

definition py_str :: "int \<Rightarrow> string" where
  "py_str i = (if i < 0 then CHR ''-'' # str_nat (nat (- i)) else str_nat (nat i))"

definition is_ascii_digit :: "char \<Rightarrow> bool" where
  "is_ascii_digit c = (48 \<le> (of_char c :: nat) \<and> (of_char c :: nat) \<le> 57)"

definition isdigit :: "string \<Rightarrow> bool" where
  "isdigit b = (b \<noteq> [] \<and> list_all is_ascii_digit b)"

definition py_int :: "string \<Rightarrow> int" where
  "py_int b = foldl (\<lambda>acc c. 10 * acc + (int (of_char c) - 48)) 0 b"

text \<open>The upgrade script of versions 1 to 4 and the schema, statement by statement.\<close>

definition get_upgrade_script :: "int \<Rightarrow> statement list option" where
  "get_upgrade_script current_version =
     (if current_version = 1 \<or> current_version = 2 \<or> current_version = 3 \<or> current_version = 4
      then Some [DROP_TABLE_IF_EXISTS T_orders,
                 DROP_TABLE_IF_EXISTS T_transactions,
                 DROP_TABLE_IF_EXISTS T_payments,
                 DROP_TABLE_IF_EXISTS T_ticks,
                 DROP_TABLE_IF_EXISTS T_orders_reserved_ticks,
                 DROP_TABLE_IF_EXISTS T_option,
                 DROP_TABLE_IF_EXISTS T_traders]
      else None)"

definition get_schema :: "statement list" where
  "get_schema =
     [CREATE_TABLE_IF_NOT_EXISTS T_orders,
      CREATE_TABLE_IF_NOT_EXISTS T_transactions,
      CREATE_TABLE_IF_NOT_EXISTS T_payments,
      CREATE_TABLE_IF_NOT_EXISTS T_ticks,
      CREATE_TABLE_IF_NOT_EXISTS T_orders_reserved_ticks,
      CREATE_TABLE_IF_NOT_EXISTS T_option,
      INSERT_OR_REPLACE_INTO_option ''database_version'' (py_str LATEST_DB_VERSION)]"

fun drop_table :: "table_name \<Rightarrow> tables \<Rightarrow> tables" where
  "drop_table T_orders ts = ts\<lparr>orders := None\<rparr>"
| "drop_table T_transactions ts = ts\<lparr>transactions := None\<rparr>"
| "drop_table T_payments ts = ts\<lparr>payments := None\<rparr>"
| "drop_table T_ticks ts = ts\<lparr>ticks := None\<rparr>"
| "drop_table T_orders_reserved_ticks ts = ts\<lparr>orders_reserved_ticks := None\<rparr>"
| "drop_table T_option ts = ts\<lparr>option_table := None\<rparr>"
| "drop_table T_traders ts = ts\<lparr>traders := None\<rparr>"

definition if_not_exists :: "'a \<Rightarrow> 'a option \<Rightarrow> 'a option" where
  "if_not_exists fresh tbl = (case tbl of None \<Rightarrow> Some fresh | Some rows \<Rightarrow> Some rows)"

fun create_table :: "table_name \<Rightarrow> tables \<Rightarrow> tables" where
  "create_table T_orders ts = ts\<lparr>orders := if_not_exists [] (orders ts)\<rparr>"
| "create_table T_transactions ts = ts\<lparr>transactions := if_not_exists [] (transactions ts)\<rparr>"
| "create_table T_payments ts = ts\<lparr>payments := if_not_exists [] (payments ts)\<rparr>"
| "create_table T_ticks ts = ts\<lparr>ticks := if_not_exists [] (ticks ts)\<rparr>"
| "create_table T_orders_reserved_ticks ts =
     ts\<lparr>orders_reserved_ticks := if_not_exists [] (orders_reserved_ticks ts)\<rparr>"
| "create_table T_option ts = ts\<lparr>option_table := if_not_exists Map.empty (option_table ts)\<rparr>"
| "create_table T_traders ts = ts\<lparr>traders := if_not_exists [] (traders ts)\<rparr>"

fun exec_statement :: "statement \<Rightarrow> tables \<Rightarrow> error + tables" where
  "exec_statement (DROP_TABLE_IF_EXISTS n) ts = Inr (drop_table n ts)"
| "exec_statement (CREATE_TABLE_IF_NOT_EXISTS n) ts = Inr (create_table n ts)"
| "exec_statement (INSERT_OR_REPLACE_INTO_option k v) ts =
     (case option_table ts of
        None \<Rightarrow> Inl OperationalError
      | Some m \<Rightarrow> Inr (ts\<lparr>option_table := Some (m(k \<mapsto> v))\<rparr>))"

text \<open>
  \<^verbatim>\<open>self.executescript\<close>: a pending transaction is committed first, then every statement
  of the script takes effect on disk as it is executed; the first failing statement
  raises and leaves the earlier ones in place.
\<close>

fun run_script :: "MarketDB \<Rightarrow> statement list \<Rightarrow> unit outcome" where
  "run_script db [] = Returned () db"
| "run_script db (s # script) =
     (case exec_statement s (working db) of
        Inl e \<Rightarrow> Raised e db
      | Inr ts \<Rightarrow> run_script \<lparr>working = ts, durable = ts\<rparr> script)"

definition executescript :: "MarketDB \<Rightarrow> statement list \<Rightarrow> unit outcome" where
  "executescript db script = run_script (commit db) script"

text \<open>The \<^verbatim>\<open>while\<close> loop of \<^verbatim>\<open>check_database\<close>; it returns the version it stops at.\<close>

function upgrade_loop :: "MarketDB \<Rightarrow> int \<Rightarrow> int outcome" where
  "upgrade_loop db database_version =
     (if database_version < LATEST_DB_VERSION then
        (case get_upgrade_script database_version of
           Some upgrade_script \<Rightarrow>
             (case executescript db upgrade_script of
                Raised e db' \<Rightarrow> Raised e db'
              | Returned _ db' \<Rightarrow> upgrade_loop db' (database_version + 1))
         | None \<Rightarrow> upgrade_loop db (database_version + 1))
      else Returned database_version db)"
  by pat_completeness auto
termination
  by (relation "measure (\<lambda>(db, v). nat (LATEST_DB_VERSION - v))") auto

declare upgrade_loop.simps [simp del]

text \<open>
  \<^verbatim>\<open>check_database\<close>. The guard of the \<^verbatim>\<open>if\<close> reads \<^verbatim>\<open>self.LATEST_DB_VERSION\<close>, an
  attribute that the class inherits from \<^verbatim>\<open>TrustChainDB\<close> (anydex/trustchain/database.py,
  which is not among the sources); the loop and the \<^verbatim>\<open>return\<close> read the constant
  \<^verbatim>\<open>LATEST_DB_VERSION\<close> of the module. The inherited attribute is the first argument.
\<close>

definition check_database :: "int \<Rightarrow> MarketDB \<Rightarrow> py_value \<Rightarrow> int outcome" where
  "check_database self_LATEST_DB_VERSION db database_version =
     (case database_version of
        PyBytes b \<Rightarrow>
          if \<not> isdigit b then Raised AssertionError db
          else if \<not> (py_int b \<ge> 0) then Raised AssertionError db
          else if py_int b < self_LATEST_DB_VERSION then
            (case upgrade_loop db (py_int b) of
               Raised e db' \<Rightarrow> Raised e db'
             | Returned _ db' \<Rightarrow>
                 (case executescript db' get_schema of
                    Raised e db'' \<Rightarrow> Raised e db''
                  | Returned _ db'' \<Rightarrow> Returned LATEST_DB_VERSION (commit db'')))
          else Returned LATEST_DB_VERSION db
      | _ \<Rightarrow> Raised AssertionError db)"


section \<open>Concrete stores and entities\<close>

text \<open>A store as the schema script leaves it, an order without reservations, numbered \<open>n\<close>.\<close>

definition fresh_tables :: tables where
  "fresh_tables =
     \<lparr>orders = Some [], transactions = Some [], payments = Some [], ticks = Some [],
      orders_reserved_ticks = Some [],
      option_table = Some [''database_version'' \<mapsto> ''5''],
      traders = None\<rparr>"

definition no_tables :: tables where
  "no_tables =
     \<lparr>orders = None, transactions = None, payments = None, ticks = None,
      orders_reserved_ticks = None, option_table = None, traders = None\<rparr>"

definition fresh_store :: MarketDB where
  "fresh_store = \<lparr>working = fresh_tables, durable = fresh_tables\<rparr>"

definition example_order :: "int \<Rightarrow> (order_id \<times> int) list \<Rightarrow> Order" where
  "example_order n reserved =
     \<lparr>order_id = (''trader'', n),
      order_assets_first_amount = 10, order_assets_first_type = ''BTC'',
      order_assets_second_amount = 20, order_assets_second_type = ''MB'',
      traded_quantity = 0, received_quantity = 0, timeout = 3600,
      order_timestamp = 1000, completed_timestamp = None,
      is_ask = True, cancelled = False, verified = True,
      reserved_ticks = reserved\<rparr>"

section \<open>Auxiliary definitions\<close>

text \<open>
  Names for terms that the statements and proofs below share: the effect of the
  \<^verbatim>\<open>UPDATE\<close> of \<^verbatim>\<open>insert_or_update_transaction\<close> on one row, the row that
  \<^verbatim>\<open>add_reserved_tick\<close> inserts, the exception of an outcome, and the store after the
  upgrade script.
\<close>

definition stale_update :: "Transaction \<Rightarrow> transactions_row \<Rightarrow> transactions_row" where
  "stale_update t r =
     (if transactions_transaction_id r = transaction_id t
         \<and> transactions_transaction_timestamp r < timestamp t
      then update_transaction_row t r else r)"

definition reserved_row :: "order_id \<Rightarrow> order_id \<times> int \<Rightarrow> orders_reserved_ticks_row" where
  "reserved_row oid item =
     \<lparr>reserved_trader_id_of = fst oid, reserved_order_number_of = snd oid,
      reserved_trader_id = fst (fst item), reserved_order_number = snd (fst item),
      reserved_quantity = snd item\<rparr>"


definition dropped_store :: MarketDB where
  "dropped_store = \<lparr>working = no_tables, durable = no_tables\<rparr>"

text \<open>Concrete payments, transactions and stores on which the theorems are instantiated.\<close>

definition example_payment :: "string \<Rightarrow> int \<Rightarrow> Payment" where
  "example_payment pid ts =
     \<lparr>payment_trader_id = ''trader'', payment_transaction_id = ''tx1'',
      payment_payment_id = pid, payment_transferred_amount = 1,
      payment_transferred_type = ''BTC'', payment_address_from = ''a'',
      payment_address_to = ''b'', payment_timestamp = ts\<rparr>"

definition example_transaction :: "int \<Rightarrow> int \<Rightarrow> Payment list \<Rightarrow> Transaction" where
  "example_transaction ts transferred ps =
     \<lparr>transaction_id = ''tx1'', transaction_order_id = (''trader'', 1),
      partner_order_id = (''partner'', 4),
      assets_first_amount = 10, assets_first_type = ''BTC'',
      assets_second_amount = 20, assets_second_type = ''MB'',
      transferred_assets_first_amount = transferred,
      transferred_assets_second_amount = 2 * transferred,
      timestamp = ts, sent_wallet_info = False, received_wallet_info = False,
      incoming_address = ''i'', outgoing_address = ''o'',
      partner_incoming_address = ''pi'', partner_outgoing_address = ''po'',
      payments_of = ps\<rparr>"



definition stocked_store :: MarketDB where
  "stocked_store = state_of (add_order fresh_store (example_order 1 [((''partner'', 4), 5)]))"

section \<open>payment\_id.py: construction\<close>

text \<open>
  Claim C9 says that constructing a \<^verbatim>\<open>PaymentId\<close> succeeds only for a non-empty string
  and fails with a \<^verbatim>\<open>ValidationError\<close> otherwise. The constructor accepts the empty
  string, and the exception it raises for a value that is not a string is
  \<^verbatim>\<open>TypeError\<close>.
\<close>

theorem C9_PaymentId_empty_string_counterexample:
  "PaymentId_init (PyStr '''') = Inr (PaymentId '''') \<and> PaymentId_init (PyStr '''') \<noteq> Inl ValidationError
   \<and> PaymentId_init (PyInt 0) = Inl TypeError"
  by simp

text \<open>
  Claim C9, as the constructor has it: construction checks the type only. Every string,
  the empty one included, yields a \<^verbatim>\<open>PaymentId\<close> holding that string; every value
  that is not a string raises \<^verbatim>\<open>TypeError\<close>.
\<close>

theorem C9_PaymentId_init_type_check:
  "(\<forall>s. PaymentId_init (PyStr s) = Inr (PaymentId s)) \<and>
   ((\<forall>s. v \<noteq> PyStr s) \<longrightarrow> PaymentId_init v = Inl TypeError)"
  by (cases v) simp_all

text \<open>
  The type check of \<^verbatim>\<open>PaymentId\<close> at a string and at a bytes object.
\<close>

theorem C9_PaymentId_init_type_check_witness:
  "PaymentId_init (PyStr ''abc'') = Inr (PaymentId ''abc'') \<and>
   PaymentId_init (PyBytes ''abc'') = Inl TypeError"
  using C9_PaymentId_init_type_check [of "PyBytes ''abc''"] by simp

section \<open>The version check\<close>

lemma py_str_LATEST: "py_str LATEST_DB_VERSION = ''5''"
  by (simp add: py_str_def LATEST_DB_VERSION_def str_nat.simps digit_char_def)

lemma foldl_digits_nonneg:
  "list_all is_ascii_digit b \<Longrightarrow> 0 \<le> acc \<Longrightarrow>
   0 \<le> foldl (\<lambda>acc c. 10 * acc + (int (of_char c) - 48)) acc b"
proof (induction b arbitrary: acc)
  case Nil
  then show ?case by simp
next
  case (Cons c b)
  from Cons.prems have "0 \<le> 10 * acc + (int (of_char c) - 48)"
    by (simp add: is_ascii_digit_def)
  with Cons show ?case by simp
qed

lemma isdigit_py_int_nonneg: "isdigit b \<Longrightarrow> 0 \<le> py_int b"
  by (simp add: isdigit_def py_int_def foldl_digits_nonneg)

lemma executescript_upgrade:
  "get_upgrade_script v = Some script \<Longrightarrow> executescript db script = Returned () dropped_store"
  by (cases "working db")
     (auto simp: get_upgrade_script_def executescript_def commit_def no_tables_def dropped_store_def
           split: if_splits)

lemma executescript_schema_total: "\<exists>db'. executescript db get_schema = Returned () db'"
  by (simp add: executescript_def get_schema_def commit_def if_not_exists_def split: option.splits)

lemma executescript_schema_dropped:
  "executescript dropped_store get_schema = Returned () fresh_store"
  by (simp add: executescript_def get_schema_def commit_def if_not_exists_def dropped_store_def
      no_tables_def fresh_store_def fresh_tables_def py_str_LATEST)

lemma upgrade_loop_latest:
  "LATEST_DB_VERSION \<le> v \<Longrightarrow> upgrade_loop db v = Returned v db"
  by (simp add: upgrade_loop.simps)

lemma upgrade_loop_4: "upgrade_loop db 4 = Returned 5 dropped_store"
  by (subst upgrade_loop.simps)
     (simp add: executescript_upgrade [of 4] get_upgrade_script_def upgrade_loop_latest
        LATEST_DB_VERSION_def)

lemma upgrade_loop_3: "upgrade_loop db 3 = Returned 5 dropped_store"
  by (subst upgrade_loop.simps)
     (simp add: executescript_upgrade [of 3] get_upgrade_script_def upgrade_loop_4
        LATEST_DB_VERSION_def)

lemma upgrade_loop_2: "upgrade_loop db 2 = Returned 5 dropped_store"
  by (subst upgrade_loop.simps)
     (simp add: executescript_upgrade [of 2] get_upgrade_script_def upgrade_loop_3
        LATEST_DB_VERSION_def)

lemma upgrade_loop_1: "upgrade_loop db 1 = Returned 5 dropped_store"
  by (subst upgrade_loop.simps)
     (simp add: executescript_upgrade [of 1] get_upgrade_script_def upgrade_loop_2
        LATEST_DB_VERSION_def)

lemma upgrade_loop_0: "upgrade_loop db 0 = Returned 5 dropped_store"
  by (subst upgrade_loop.simps)
     (simp add: get_upgrade_script_def upgrade_loop_1 LATEST_DB_VERSION_def)

lemma upgrade_loop_legacy:
  assumes "0 \<le> v" "v < LATEST_DB_VERSION"
  shows "upgrade_loop db v = Returned 5 dropped_store"
proof -
  from assms have "v = 0 \<or> v = 1 \<or> v = 2 \<or> v = 3 \<or> v = 4"
    by (simp add: LATEST_DB_VERSION_def) arith
  then show ?thesis
    using upgrade_loop_0 upgrade_loop_1 upgrade_loop_2 upgrade_loop_3 upgrade_loop_4 by blast
qed

lemma upgrade_loop_total: "0 \<le> v \<Longrightarrow> \<exists>v' db'. upgrade_loop db v = Returned v' db'"
  using upgrade_loop_legacy [of v db] upgrade_loop_latest [of v db]
  by (cases "v < LATEST_DB_VERSION") auto


text \<open>
  Claim C8: \<^verbatim>\<open>check_database\<close> raises \<^verbatim>\<open>AssertionError\<close>, leaving the store as it
  was, exactly when its argument is not a bytes object made of one or more ASCII digits
  (so for \<^verbatim>\<open>b"-1"\<close>, \<^verbatim>\<open>b"abc"\<close> and \<^verbatim>\<open>b""\<close>); for every bytes object of digits
  the three assertions pass, the integer read is not negative, and the call returns
  \<^verbatim>\<open>LATEST_DB_VERSION\<close>.
\<close>

theorem C8_check_database_precondition:
  "(check_database sl db v = Raised AssertionError db) = (\<not> (\<exists>b. v = PyBytes b \<and> isdigit b)) \<and>
   ((\<exists>b. v = PyBytes b \<and> isdigit b) \<longrightarrow>
      (\<exists>db'. check_database sl db v = Returned LATEST_DB_VERSION db')) \<and>
   (\<forall>b. isdigit b \<longrightarrow> 0 \<le> py_int b)"
proof -
  have ok: "\<exists>db'. check_database sl db (PyBytes b) = Returned LATEST_DB_VERSION db'" if d: "isdigit b" for b
  proof (cases "py_int b < sl")
    case True
    from d have nn: "0 \<le> py_int b" by (rule isdigit_py_int_nonneg)
    from upgrade_loop_total [OF nn] obtain v' db1 where u: "upgrade_loop db (py_int b) = Returned v' db1"
      by blast
    from executescript_schema_total obtain db2 where s: "executescript db1 get_schema = Returned () db2"
      by blast
    from d nn True u s show ?thesis by (simp add: check_database_def)
  next
    case False
    with d isdigit_py_int_nonneg [OF d] show ?thesis by (simp add: check_database_def)
  qed
  have bad: "check_database sl db v = Raised AssertionError db" if "\<not> (\<exists>b. v = PyBytes b \<and> isdigit b)"
    using that by (cases v) (simp_all add: check_database_def)
  have "check_database sl db v \<noteq> Raised AssertionError db" if "\<exists>b. v = PyBytes b \<and> isdigit b"
    using that ok by force
  with ok bad isdigit_py_int_nonneg show ?thesis by blast
qed

text \<open>
  The precondition of \<^verbatim>\<open>check_database\<close> at a negative, a non-numeric and a numeric
  version.
\<close>

theorem C8_check_database_precondition_witness:
  "check_database 5 fresh_store (PyBytes ''-1'') = Raised AssertionError fresh_store \<and>
   check_database 5 fresh_store (PyBytes ''abc'') = Raised AssertionError fresh_store \<and>
   isdigit ''7'' \<and> 0 \<le> py_int ''7'' \<and>
   (\<exists>db'. check_database 5 fresh_store (PyBytes ''7'') = Returned LATEST_DB_VERSION db')"
  using C8_check_database_precondition [of 5 fresh_store "PyBytes ''-1''"]
    C8_check_database_precondition [of 5 fresh_store "PyBytes ''abc''"]
    C8_check_database_precondition [of 5 fresh_store "PyBytes ''7''"]
  by (simp add: isdigit_def is_ascii_digit_def)

text \<open>
  Claim C4: for every version \<open>v\<close> read from digit bytes with \<open>v < LATEST_DB_VERSION\<close>
  (it is never negative), \<^verbatim>\<open>check_database\<close> returns \<^verbatim>\<open>LATEST_DB_VERSION\<close> and
  leaves, in the connection and on disk, the five entity tables empty and the version
  marker at \<^verbatim>\<open>LATEST_DB_VERSION\<close>; every upgrade script that exists drops all tables.
  The guard of \<^verbatim>\<open>check_database\<close> reads the inherited attribute
  \<^verbatim>\<open>self.LATEST_DB_VERSION\<close>, which is taken not to be below the constant of the module.
\<close>

theorem C4_check_database_upgrade:
  "isdigit b \<and> py_int b < LATEST_DB_VERSION \<and> LATEST_DB_VERSION \<le> sl \<longrightarrow>
     check_database sl db (PyBytes b) = Returned LATEST_DB_VERSION fresh_store \<and>
     (\<forall>v script. get_upgrade_script v = Some script \<longrightarrow>
        executescript db script = Returned () \<lparr>working = no_tables, durable = no_tables\<rparr>)"
proof (intro impI conjI allI)
  assume a: "isdigit b \<and> py_int b < LATEST_DB_VERSION \<and> LATEST_DB_VERSION \<le> sl"
  then have nn: "0 \<le> py_int b" by (simp add: isdigit_py_int_nonneg)
  from a nn have u: "upgrade_loop db (py_int b) = Returned 5 dropped_store"
    by (simp add: upgrade_loop_legacy)
  from a nn u show "check_database sl db (PyBytes b) = Returned LATEST_DB_VERSION fresh_store"
    by (simp add: check_database_def executescript_schema_dropped commit_def fresh_store_def)
next
  fix v script
  assume "get_upgrade_script v = Some script"
  then show "executescript db script = Returned () \<lparr>working = no_tables, durable = no_tables\<rparr>"
    using executescript_upgrade [of v script db] by (simp add: dropped_store_def)
qed

text \<open>
  The upgrade from version 2 of a store that holds an order and a reservation.
\<close>

theorem C4_check_database_upgrade_witness:
  "isdigit ''2'' \<and> py_int ''2'' < LATEST_DB_VERSION \<and> LATEST_DB_VERSION \<le> 5 \<and>
   check_database 5 stocked_store (PyBytes ''2'') = Returned LATEST_DB_VERSION fresh_store \<and>
   get_upgrade_script 2 \<noteq> None"
  using C4_check_database_upgrade [of "''2''" 5 stocked_store]
  by (simp add: isdigit_def is_ascii_digit_def py_int_def LATEST_DB_VERSION_def get_upgrade_script_def)




section \<open>Orders and reservations\<close>

lemma fold_max_Max: "fold max ys (x::int) = Max (set (x # ys))"
proof (induction ys arbitrary: x)
  case Nil
  then show ?case by simp
next
  case (Cons y ys)
  have "fold max (y # ys) x = Max (set (max y x # ys))"
    using Cons.IH by simp
  also have "\<dots> = Max (set (x # y # ys))"
    by (cases "set ys = {}") (auto simp: max.commute max.left_commute)
  finally show ?case .
qed

lemma sql_max_Max: "xs \<noteq> [] \<Longrightarrow> sql_max xs = Some (Max (set xs))"
  by (cases xs) (simp_all add: sql_max_def fold_max_Max)

lemma add_reserved_ticks_orders:
  "orders (working (state_of (add_reserved_ticks db oid items))) = orders (working db)"
proof (induction items arbitrary: db)
  case Nil
  then show ?case by simp
next
  case (Cons item items)
  obtain k q where item: "item = (k, q)" by (cases item)
  show ?case
  proof (cases "add_reserved_tick db oid k q")
    case (Returned u db')
    then have "orders (working db') = orders (working db)"
      by (auto simp: add_reserved_tick_def commit_def split: sum.splits)
    with Returned Cons.IH [of db'] item show ?thesis by simp
  next
    case (Raised e db')
    then have "db' = db"
      by (auto simp: add_reserved_tick_def split: sum.splits)
    with Raised item show ?thesis by simp
  qed
qed

lemma add_order_orders:
  assumes "orders (working db) = Some rows"
    and "order_id ord \<notin> set (map orders_key rows)"
  shows "orders (working (state_of (add_order db ord))) = Some (rows @ [Order_to_database ord])"
proof -
  have key: "orders_key (Order_to_database ord) = order_id ord"
    by (simp add: orders_key_def Order_to_database_def)
  show ?thesis
    using assms by (simp add: add_order_def sql_insert_def key add_reserved_ticks_orders commit_def)
qed

text \<open>
  Claim C6: \<^verbatim>\<open>get_next_order_number\<close> returns 1 when the table of orders is empty and
  otherwise one plus the largest order number of all rows, whatever their trader; after
  adding orders numbered 3, 7 and 2 to an empty table it returns 8.
\<close>

theorem C6_get_next_order_number:
  "(orders (working db) = Some rows \<longrightarrow>
      get_next_order_number db =
        Returned (if rows = [] then 1 else Max (set (map orders_order_number rows)) + 1) db) \<and>
   (orders (working db) = Some [] \<and> snd (order_id o1) = 3 \<and> snd (order_id o2) = 7
      \<and> snd (order_id o3) = 2 \<longrightarrow>
      (\<exists>db'. state_of (add_order (state_of (add_order (state_of (add_order db o1)) o2)) o3) = db'
             \<and> get_next_order_number db' = Returned 8 db'))"
proof (intro conjI impI)
  assume rows: "orders (working db) = Some rows"
  show "get_next_order_number db =
        Returned (if rows = [] then 1 else Max (set (map orders_order_number rows)) + 1) db"
  proof (cases "rows = []")
    case True
    with rows show ?thesis by (simp add: get_next_order_number_def sql_max_def)
  next
    case False
    then have "sql_max (map orders_order_number rows) = Some (Max (set (map orders_order_number rows)))"
      by (simp add: sql_max_Max)
    with rows False show ?thesis by (simp add: get_next_order_number_def)
  qed
next
  assume a: "orders (working db) = Some [] \<and> snd (order_id o1) = 3 \<and> snd (order_id o2) = 7
      \<and> snd (order_id o3) = 2"
  let ?db1 = "state_of (add_order db o1)"
  let ?db2 = "state_of (add_order ?db1 o2)"
  let ?db3 = "state_of (add_order ?db2 o3)"
  have k: "\<And>ord. orders_key (Order_to_database ord) = order_id ord"
    "\<And>ord. orders_order_number (Order_to_database ord) = snd (order_id ord)"
    by (simp_all add: orders_key_def Order_to_database_def)
  have ne: "order_id o2 \<noteq> order_id o1" "order_id o3 \<noteq> order_id o1" "order_id o3 \<noteq> order_id o2"
    using a by (auto simp: prod_eq_iff)
  have 1: "orders (working ?db1) = Some [Order_to_database o1]"
    using a add_order_orders [of db "[]" o1] by simp
  have 2: "orders (working ?db2) = Some [Order_to_database o1, Order_to_database o2]"
    using ne add_order_orders [OF 1, of o2] by (simp add: k)
  have 3: "orders (working ?db3) = Some [Order_to_database o1, Order_to_database o2, Order_to_database o3]"
    using ne add_order_orders [OF 2, of o3] by (simp add: k)
  have "get_next_order_number ?db3 = Returned 8 ?db3"
    using a by (simp add: get_next_order_number_def 3 sql_max_def k)
  then show "\<exists>db'. ?db3 = db' \<and> get_next_order_number db' = Returned 8 db'"
    by blast
qed

text \<open>
  The next order number of the fresh store, and after orders 3, 7 and 2.
\<close>

theorem C6_get_next_order_number_witness:
  "orders (working fresh_store) = Some [] \<and>
   get_next_order_number fresh_store = Returned 1 fresh_store \<and>
   (\<exists>db'. get_next_order_number db' = Returned 8 db' \<and>
      db' = state_of (add_order (state_of (add_order (state_of (add_order fresh_store
              (example_order 3 []))) (example_order 7 []))) (example_order 2 [])))"
  using C6_get_next_order_number [of fresh_store "[]" "example_order 3 []" "example_order 7 []"
      "example_order 2 []"]
  by (simp add: fresh_store_def fresh_tables_def example_order_def)

text \<open>
  Claim C7: on a store whose tables of orders and reservations exist,
  \<^verbatim>\<open>delete_order\<close> never raises; it removes the rows of the order id from both tables
  and no other row; afterwards \<^verbatim>\<open>get_order\<close> returns \<^verbatim>\<open>None\<close> and
  \<^verbatim>\<open>get_reserved_ticks\<close> the empty list; when no row carries the id the store is
  unchanged.
\<close>

theorem C7_delete_order:
  "orders (working db) = Some os \<and> orders_reserved_ticks (working db) = Some rs \<longrightarrow>
     (\<exists>db'. delete_order db oid = Returned () db' \<and>
        get_order db' oid = Returned None db' \<and>
        get_reserved_ticks db' oid = Returned [] db' \<and>
        db' = db\<lparr>working := (working db)
                 \<lparr>orders := Some (filter (\<lambda>r. orders_key r \<noteq> oid) os),
                  orders_reserved_ticks := Some (filter (\<lambda>r. reserved_owner r \<noteq> oid) rs)\<rparr>\<rparr> \<and>
        (oid \<notin> orders_key ` set os \<and> oid \<notin> reserved_owner ` set rs \<longrightarrow> db' = db))"
proof
  assume a: "orders (working db) = Some os \<and> orders_reserved_ticks (working db) = Some rs"
  let ?db' = "db\<lparr>working := (working db)
                 \<lparr>orders := Some (filter (\<lambda>r. orders_key r \<noteq> oid) os),
                  orders_reserved_ticks := Some (filter (\<lambda>r. reserved_owner r \<noteq> oid) rs)\<rparr>\<rparr>"
  have del: "delete_order db oid = Returned () ?db'"
    using a by (simp add: delete_order_def delete_reserved_ticks_def sql_delete_def)
  have f1: "filter (\<lambda>r. orders_key r = oid) (filter (\<lambda>r. orders_key r \<noteq> oid) os) = []"
    by (induction os) auto
  have f2: "filter (\<lambda>r. reserved_owner r = oid) (filter (\<lambda>r. reserved_owner r \<noteq> oid) rs) = []"
    by (induction rs) auto
  have go: "get_order ?db' oid = Returned None ?db'"
    by (simp add: get_order_def sql_select_def f1)
  have gr: "get_reserved_ticks ?db' oid = Returned [] ?db'"
    by (simp add: get_reserved_ticks_def sql_select_def f2)
  have noop: "?db' = db" if "oid \<notin> orders_key ` set os \<and> oid \<notin> reserved_owner ` set rs"
  proof -
    have "filter (\<lambda>r. orders_key r \<noteq> oid) os = os" "filter (\<lambda>r. reserved_owner r \<noteq> oid) rs = rs"
      using that by (auto simp: filter_id_conv)
    with a show ?thesis by simp
  qed
  from del go gr noop
  show "\<exists>db'. delete_order db oid = Returned () db' \<and>
        get_order db' oid = Returned None db' \<and>
        get_reserved_ticks db' oid = Returned [] db' \<and>
        db' = ?db' \<and>
        (oid \<notin> orders_key ` set os \<and> oid \<notin> reserved_owner ` set rs \<longrightarrow> db' = db)"
    by blast
qed

text \<open>
  Deleting the order of a store that holds it with one reservation, and deleting an
  order that is not stored.
\<close>

theorem C7_delete_order_witness:
  "orders (working stocked_store) = Some [Order_to_database (example_order 1 [((''partner'', 4), 5)])] \<and>
   orders_reserved_ticks (working stocked_store) = Some [reserved_row (''trader'', 1) ((''partner'', 4), 5)] \<and>
   (\<exists>db'. delete_order stocked_store (''trader'', 1) = Returned () db' \<and>
      get_order db' (''trader'', 1) = Returned None db' \<and>
      get_reserved_ticks db' (''trader'', 1) = Returned [] db') \<and>
   (\<exists>db'. delete_order stocked_store (''trader'', 2) = Returned () db' \<and> db' = stocked_store)"
proof -
  have o: "orders (working stocked_store) = Some [Order_to_database (example_order 1 [((''partner'', 4), 5)])]"
    and r: "orders_reserved_ticks (working stocked_store) = Some [reserved_row (''trader'', 1) ((''partner'', 4), 5)]"
    by (simp_all add: stocked_store_def fresh_store_def fresh_tables_def example_order_def add_order_def
      add_reserved_tick_def sql_insert_def commit_def reserved_row_def
      reserved_key_def reserved_owner_def orders_key_def Order_to_database_def)
  have k: "orders_key (Order_to_database (example_order 1 [((''partner'', 4), 5)])) = (''trader'', 1)"
    "reserved_owner (reserved_row (''trader'', 1) ((''partner'', 4), 5)) = (''trader'', 1)"
    by (simp_all add: orders_key_def Order_to_database_def example_order_def reserved_owner_def
        reserved_row_def)
  show ?thesis
    using C7_delete_order [of stocked_store
        "[Order_to_database (example_order 1 [((''partner'', 4), 5)])]"
        "[reserved_row (''trader'', 1) ((''partner'', 4), 5)]" "(''trader'', 1)"]
      C7_delete_order [of stocked_store
        "[Order_to_database (example_order 1 [((''partner'', 4), 5)])]"
        "[reserved_row (''trader'', 1) ((''partner'', 4), 5)]" "(''trader'', 2)"] o r
    by (simp add: k)
qed






section \<open>Transactions and payments\<close>

lemma update_transaction_row_id [simp]:
  "transactions_transaction_id (update_transaction_row t r) = transactions_transaction_id r"
  by (simp add: update_transaction_row_def)

lemma update_transaction_row_timestamp [simp]:
  "transactions_transaction_timestamp (update_transaction_row t r) = timestamp t"
  by (simp add: update_transaction_row_def)

lemma stale_update_id [simp]:
  "transactions_transaction_id (stale_update t r) = transactions_transaction_id r"
  by (simp add: stale_update_def)

lemma stale_update_idem [simp]: "stale_update t (stale_update t r) = stale_update t r"
  by (simp add: stale_update_def)

lemma stale_update_other:
  "transaction_id t \<notin> set (map transactions_transaction_id rows) \<Longrightarrow>
   map (stale_update t) rows = rows"
  by (induction rows) (auto simp: stale_update_def)

lemma Transaction_to_database_id [simp]:
  "transactions_transaction_id (Transaction_to_database t) = transaction_id t"
  by (simp add: Transaction_to_database_def)

lemma Transaction_to_database_timestamp [simp]:
  "transactions_transaction_timestamp (Transaction_to_database t) = timestamp t"
  by (simp add: Transaction_to_database_def)

lemma insert_or_update_transaction_eq:
  assumes "transactions (working db) = Some rows"
  shows "insert_or_update_transaction db t =
     Returned () (commit (db\<lparr>working := (working db)\<lparr>transactions :=
        Some (map (stale_update t)
               (if transaction_id t \<in> set (map transactions_transaction_id rows) then rows
                else rows @ [Transaction_to_database t]))\<rparr>\<rparr>))"
proof -
  have "(\<lambda>r. if transactions_transaction_id r = transaction_id t
                \<and> transactions_transaction_timestamp r < timestamp t
             then update_transaction_row t r else r) = stale_update t"
    by (rule ext) (simp add: stale_update_def)
  with assms show ?thesis
    by (simp add: insert_or_update_transaction_def sql_insert_or_ignore_def sql_update_def)
qed

lemma add_payments_transactions:
  "transactions (working (state_of (add_payments db ps))) = transactions (working db)"
proof (induction ps arbitrary: db)
  case Nil
  then show ?case by simp
next
  case (Cons p ps)
  show ?case
  proof (cases "add_payment db p")
    case (Returned u db')
    then have "transactions (working db') = transactions (working db)"
      by (auto simp: add_payment_def commit_def split: sum.splits)
    with Returned Cons.IH [of db'] show ?thesis by simp
  next
    case (Raised e db')
    then have "db' = db"
      by (auto simp: add_payment_def split: sum.splits)
    with Raised show ?thesis by simp
  qed
qed

lemma delete_payments_transactions:
  "transactions (working (state_of (delete_payments db tid))) = transactions (working db)"
  by (simp add: delete_payments_def sql_delete_def split: option.splits)

lemma add_transaction_transactions:
  assumes "transactions (working db) = Some rows"
    and "transaction_id t \<notin> set (map transactions_transaction_id rows)"
  shows "transactions (working (state_of (add_transaction db t))) =
         Some (rows @ [Transaction_to_database t])"
proof -
  let ?db0 = "commit (db\<lparr>working := (working db)\<lparr>transactions := Some (rows @ [Transaction_to_database t])\<rparr>\<rparr>)"
  have eq: "add_transaction db t =
     (case delete_payments ?db0 (transaction_id t) of
        Raised e db' \<Rightarrow> Raised e db'
      | Returned _ db' \<Rightarrow> add_payments db' (payments_of t))"
    using assms by (simp add: add_transaction_def sql_insert_def)
  have t0: "transactions (working ?db0) = Some (rows @ [Transaction_to_database t])"
    by (simp add: commit_def)
  show ?thesis
  proof (cases "delete_payments ?db0 (transaction_id t)")
    case (Returned u db')
    with delete_payments_transactions [of ?db0 "transaction_id t"] t0
    have "transactions (working db') = Some (rows @ [Transaction_to_database t])" by simp
    with Returned eq add_payments_transactions [of db' "payments_of t"] show ?thesis by simp
  next
    case (Raised e db')
    with delete_payments_transactions [of ?db0 "transaction_id t"] t0 eq show ?thesis by simp
  qed
qed

text \<open>
  Claim C5: on a store whose table of transactions exists,
  \<^verbatim>\<open>insert_or_update_transaction\<close> never raises, changes no table but the one of
  transactions, and commits. A second call with the same transaction returns the store
  of the first call unchanged. When the id is not stored, the row of the transaction is
  appended. When the id is stored, the insert is ignored: no row is added or replaced,
  every stored row keeps all its columns, except that a row of that id with an older
  timestamp takes the two amounts, the two transferred amounts and the timestamp of the
  transaction; \<^verbatim>\<open>add_transaction\<close> raises \<^verbatim>\<open>IntegrityError\<close> there.
\<close>

theorem C5_insert_or_update_transaction_idempotent:
  "transactions (working db) = Some rows \<longrightarrow>
     (\<exists>db1 rows1. insert_or_update_transaction db t = Returned () db1 \<and>
        insert_or_update_transaction db1 t = Returned () db1 \<and>
        working db1 = (working db)\<lparr>transactions := Some rows1\<rparr> \<and>
        durable db1 = working db1 \<and>
        (transaction_id t \<notin> set (map transactions_transaction_id rows) \<longrightarrow>
           rows1 = rows @ [Transaction_to_database t]) \<and>
        (transaction_id t \<in> set (map transactions_transaction_id rows) \<longrightarrow>
           rows1 = map (\<lambda>r. if transactions_transaction_id r = transaction_id t
                                 \<and> transactions_transaction_timestamp r < timestamp t
                              then r\<lparr>transactions_asset1_amount := assets_first_amount t,
                                     transactions_asset1_transferred := transferred_assets_first_amount t,
                                     transactions_asset2_amount := assets_second_amount t,
                                     transactions_asset2_transferred := transferred_assets_second_amount t,
                                     transactions_transaction_timestamp := timestamp t\<rparr>
                              else r) rows \<and>
           add_transaction db t = Raised IntegrityError db))"
proof
  assume rows: "transactions (working db) = Some rows"
  let ?rows0 = "if transaction_id t \<in> set (map transactions_transaction_id rows) then rows
                else rows @ [Transaction_to_database t]"
  let ?rows1 = "map (stale_update t) ?rows0"
  let ?db1 = "commit (db\<lparr>working := (working db)\<lparr>transactions := Some ?rows1\<rparr>\<rparr>)"
  let ?upd = "\<lambda>r. if transactions_transaction_id r = transaction_id t
                                 \<and> transactions_transaction_timestamp r < timestamp t
                              then r\<lparr>transactions_asset1_amount := assets_first_amount t,
                                     transactions_asset1_transferred := transferred_assets_first_amount t,
                                     transactions_asset2_amount := assets_second_amount t,
                                     transactions_asset2_transferred := transferred_assets_second_amount t,
                                     transactions_transaction_timestamp := timestamp t\<rparr>
                              else r"
  have first: "insert_or_update_transaction db t = Returned () ?db1"
    using rows by (rule insert_or_update_transaction_eq)
  have w1: "transactions (working ?db1) = Some ?rows1"
    by (simp add: commit_def)
  have w: "working ?db1 = (working db)\<lparr>transactions := Some ?rows1\<rparr>"
    by (simp add: commit_def)
  have d: "durable ?db1 = working ?db1"
    by (simp add: commit_def)
  have ids: "map transactions_transaction_id ?rows1 = map transactions_transaction_id ?rows0"
    by (simp add: comp_def)
  have present: "transaction_id t \<in> set (map transactions_transaction_id ?rows1)"
    unfolding ids by simp
  have again: "map (stale_update t) ?rows1 = ?rows1"
    by (simp add: comp_def)
  have "insert_or_update_transaction ?db1 t =
     Returned () (commit (?db1\<lparr>working := (working ?db1)\<lparr>transactions :=
        Some (map (stale_update t)
               (if transaction_id t \<in> set (map transactions_transaction_id ?rows1) then ?rows1
                else ?rows1 @ [Transaction_to_database t]))\<rparr>\<rparr>))"
    using w1 by (rule insert_or_update_transaction_eq)
  also have "\<dots> = Returned () (commit (?db1\<lparr>working := (working ?db1)\<lparr>transactions := Some ?rows1\<rparr>\<rparr>))"
    using present again by (simp only: if_True)
  also have "\<dots> = Returned () ?db1"
    by (simp add: commit_def)
  finally have second: "insert_or_update_transaction ?db1 t = Returned () ?db1" .
  have absent: "?rows1 = rows @ [Transaction_to_database t]"
    if "transaction_id t \<notin> set (map transactions_transaction_id rows)"
    using that by (simp add: stale_update_other) (simp add: stale_update_def)
  have upd: "stale_update t = ?upd"
    by (rule ext) (simp add: stale_update_def update_transaction_row_def)
  have kept: "?rows1 = map ?upd rows"
    if "transaction_id t \<in> set (map transactions_transaction_id rows)"
    using that by (simp only: if_True upd)
  have dup: "add_transaction db t = Raised IntegrityError db"
    if "transaction_id t \<in> set (map transactions_transaction_id rows)"
    using that rows by (simp add: add_transaction_def sql_insert_def)
  from first second w d absent kept dup
  show "\<exists>db1 rows1. insert_or_update_transaction db t = Returned () db1 \<and>
        insert_or_update_transaction db1 t = Returned () db1 \<and>
        working db1 = (working db)\<lparr>transactions := Some rows1\<rparr> \<and>
        durable db1 = working db1 \<and>
        (transaction_id t \<notin> set (map transactions_transaction_id rows) \<longrightarrow>
           rows1 = rows @ [Transaction_to_database t]) \<and>
        (transaction_id t \<in> set (map transactions_transaction_id rows) \<longrightarrow>
           rows1 = map ?upd rows \<and>
           add_transaction db t = Raised IntegrityError db)"
    by blast
qed

text \<open>
  Two upserts of one transaction into the fresh store; then, on the store that holds the
  transaction, an upsert with an older timestamp and other amounts, which changes
  nothing, and one with a newer timestamp.
\<close>

theorem C5_insert_or_update_transaction_idempotent_witness:
  "transactions (working fresh_store) = Some [] \<and>
   (\<exists>db1. insert_or_update_transaction fresh_store (example_transaction 100 3 []) = Returned () db1 \<and>
      insert_or_update_transaction db1 (example_transaction 100 3 []) = Returned () db1 \<and>
      transactions (working db1) = Some [Transaction_to_database (example_transaction 100 3 [])]) \<and>
   transactions (working (state_of (add_transaction fresh_store (example_transaction 100 3 [])))) =
     Some [Transaction_to_database (example_transaction 100 3 [])] \<and>
   (\<exists>db1. insert_or_update_transaction
            (state_of (add_transaction fresh_store (example_transaction 100 3 [])))
            (example_transaction 50 9 []) = Returned () db1 \<and>
      transactions (working db1) = Some [Transaction_to_database (example_transaction 100 3 [])]) \<and>
   (\<exists>db1. insert_or_update_transaction
            (state_of (add_transaction fresh_store (example_transaction 100 3 [])))
            (example_transaction 200 9 []) = Returned () db1 \<and>
      transactions (working db1) = Some [Transaction_to_database (example_transaction 200 9 [])])"
proof -
  let ?t = "example_transaction 100 3 []"
  let ?stored = "state_of (add_transaction fresh_store ?t)"
  have f: "transactions (working fresh_store) = Some []"
    by (simp add: fresh_store_def fresh_tables_def)
  have s: "transactions (working ?stored) = Some [Transaction_to_database ?t]"
    using add_transaction_transactions [of fresh_store "[]" ?t] f by simp
  have i: "transaction_id (example_transaction 50 9 []) = ''tx1''"
    "transaction_id (example_transaction 200 9 []) = ''tx1''" "transaction_id ?t = ''tx1''"
    by (simp_all add: example_transaction_def)
  show ?thesis
    using C5_insert_or_update_transaction_idempotent [of fresh_store "[]" ?t]
      C5_insert_or_update_transaction_idempotent [of ?stored "[Transaction_to_database ?t]"
        "example_transaction 50 9 []"]
      C5_insert_or_update_transaction_idempotent [of ?stored "[Transaction_to_database ?t]"
        "example_transaction 200 9 []"] f s
    by (auto simp: i) (simp_all add: example_transaction_def Transaction_to_database_def)
qed

text \<open>
  Claim C1: after \<^verbatim>\<open>add_transaction(t1)\<close> of a transaction whose id was not stored,
  \<^verbatim>\<open>insert_or_update_transaction(t2)\<close> with the same id returns without an exception.
  When the timestamp of \<open>t2\<close> is greater than the one of \<open>t1\<close>, the stored row is the
  row of \<open>t1\<close> with the two amounts, the two transferred amounts and the timestamp of
  \<open>t2\<close>; otherwise it is the row of \<open>t1\<close>. No other row and no other table changes.
\<close>

theorem C1_insert_or_update_transaction_newer_only:
  "transactions (working db) = Some rows \<and>
   transaction_id t1 \<notin> set (map transactions_transaction_id rows) \<and>
   transaction_id t2 = transaction_id t1 \<longrightarrow>
     (\<exists>db1 db2. state_of (add_transaction db t1) = db1 \<and>
        transactions (working db1) = Some (rows @ [Transaction_to_database t1]) \<and>
        insert_or_update_transaction db1 t2 = Returned () db2 \<and>
        working db2 = (working db1)\<lparr>transactions := Some (rows @
          [if timestamp t1 < timestamp t2
           then (Transaction_to_database t1)
                  \<lparr>transactions_asset1_amount := assets_first_amount t2,
                   transactions_asset1_transferred := transferred_assets_first_amount t2,
                   transactions_asset2_amount := assets_second_amount t2,
                   transactions_asset2_transferred := transferred_assets_second_amount t2,
                   transactions_transaction_timestamp := timestamp t2\<rparr>
           else Transaction_to_database t1])\<rparr> \<and>
        durable db2 = working db2)"
proof
  assume a: "transactions (working db) = Some rows \<and>
   transaction_id t1 \<notin> set (map transactions_transaction_id rows) \<and>
   transaction_id t2 = transaction_id t1"
  let ?db1 = "state_of (add_transaction db t1)"
  let ?r1 = "Transaction_to_database t1"
  have w1: "transactions (working ?db1) = Some (rows @ [?r1])"
    using a by (simp add: add_transaction_transactions)
  have other: "map (stale_update t2) rows = rows"
    using a by (simp add: stale_update_other)
  have r1: "stale_update t2 ?r1 =
     (if timestamp t1 < timestamp t2
           then ?r1\<lparr>transactions_asset1_amount := assets_first_amount t2,
                   transactions_asset1_transferred := transferred_assets_first_amount t2,
                   transactions_asset2_amount := assets_second_amount t2,
                   transactions_asset2_transferred := transferred_assets_second_amount t2,
                   transactions_transaction_timestamp := timestamp t2\<rparr>
           else ?r1)"
    using a by (simp add: stale_update_def update_transaction_row_def)
  have "insert_or_update_transaction ?db1 t2 =
     Returned () (commit (?db1\<lparr>working := (working ?db1)\<lparr>transactions :=
        Some (map (stale_update t2)
               (if transaction_id t2 \<in> set (map transactions_transaction_id (rows @ [?r1]))
                then rows @ [?r1] else (rows @ [?r1]) @ [Transaction_to_database t2]))\<rparr>\<rparr>))"
    using w1 by (rule insert_or_update_transaction_eq)
  also have "(if transaction_id t2 \<in> set (map transactions_transaction_id (rows @ [?r1]))
                then rows @ [?r1] else (rows @ [?r1]) @ [Transaction_to_database t2]) = rows @ [?r1]"
    using a by simp
  also have "map (stale_update t2) (rows @ [?r1]) = rows @ [stale_update t2 ?r1]"
    using other by simp
  finally have step: "insert_or_update_transaction ?db1 t2 =
     Returned () (commit (?db1\<lparr>working := (working ?db1)\<lparr>transactions :=
        Some (rows @ [stale_update t2 ?r1])\<rparr>\<rparr>))" .
  show "\<exists>db1 db2. state_of (add_transaction db t1) = db1 \<and>
        transactions (working db1) = Some (rows @ [Transaction_to_database t1]) \<and>
        insert_or_update_transaction db1 t2 = Returned () db2 \<and>
        working db2 = (working db1)\<lparr>transactions := Some (rows @
          [if timestamp t1 < timestamp t2
           then (Transaction_to_database t1)
                  \<lparr>transactions_asset1_amount := assets_first_amount t2,
                   transactions_asset1_transferred := transferred_assets_first_amount t2,
                   transactions_asset2_amount := assets_second_amount t2,
                   transactions_asset2_transferred := transferred_assets_second_amount t2,
                   transactions_transaction_timestamp := timestamp t2\<rparr>
           else Transaction_to_database t1])\<rparr> \<and>
        durable db2 = working db2"
    using w1 step unfolding r1 by (simp add: commit_def)
qed

text \<open>
  An update with a newer timestamp, and one with the same timestamp and other amounts.
\<close>

theorem C1_insert_or_update_transaction_newer_only_witness:
  "transactions (working fresh_store) = Some [] \<and>
   transaction_id (example_transaction 200 7 []) = transaction_id (example_transaction 100 3 []) \<and>
   (\<exists>db2. insert_or_update_transaction (state_of (add_transaction fresh_store (example_transaction 100 3 [])))
            (example_transaction 200 7 []) = Returned () db2 \<and>
      transactions (working db2) = Some [Transaction_to_database (example_transaction 200 7 [])]) \<and>
   (\<exists>db2. insert_or_update_transaction (state_of (add_transaction fresh_store (example_transaction 100 3 [])))
            (example_transaction 100 7 []) = Returned () db2 \<and>
      transactions (working db2) = Some [Transaction_to_database (example_transaction 100 3 [])])"
  using C1_insert_or_update_transaction_newer_only [of fresh_store "[]" "example_transaction 100 3 []"
      "example_transaction 200 7 []"]
    C1_insert_or_update_transaction_newer_only [of fresh_store "[]" "example_transaction 100 3 []"
      "example_transaction 100 7 []"]
  by (auto simp: fresh_store_def fresh_tables_def example_transaction_def Transaction_to_database_def)

lemma add_payments_ok:
  "payments (working db) = Some prows \<Longrightarrow>
   \<forall>p\<in>set ps. payments_key (Payment_to_database p) \<notin> set (map payments_key prows) \<Longrightarrow>
   distinct (map (\<lambda>p. payments_key (Payment_to_database p)) ps) \<Longrightarrow>
   \<exists>db'. add_payments db ps = Returned () db' \<and>
         working db' = (working db)\<lparr>payments := Some (prows @ map Payment_to_database ps)\<rparr>"
proof (induction ps arbitrary: db prows)
  case Nil
  then show ?case by simp
next
  case (Cons p ps)
  let ?db1 = "commit (db\<lparr>working := (working db)\<lparr>payments := Some (prows @ [Payment_to_database p])\<rparr>\<rparr>)"
  have step: "add_payment db p = Returned () ?db1"
    using Cons.prems by (simp add: add_payment_def sql_insert_def)
  have p1: "payments (working ?db1) = Some (prows @ [Payment_to_database p])"
    by (simp add: commit_def)
  have fresh: "\<forall>q\<in>set ps. payments_key (Payment_to_database q)
      \<notin> set (map payments_key (prows @ [Payment_to_database p]))"
  proof
    fix q
    assume q: "q \<in> set ps"
    from Cons.prems(2) q have old: "payments_key (Payment_to_database q) \<notin> set (map payments_key prows)"
      by simp
    from Cons.prems(3)
    have "payments_key (Payment_to_database p) \<notin> (\<lambda>p. payments_key (Payment_to_database p)) ` set ps"
      by simp
    with q have "payments_key (Payment_to_database q) \<noteq> payments_key (Payment_to_database p)"
      by (metis image_eqI)
    with old show "payments_key (Payment_to_database q)
      \<notin> set (map payments_key (prows @ [Payment_to_database p]))"
      by simp
  qed
  have dist: "distinct (map (\<lambda>p. payments_key (Payment_to_database p)) ps)"
    using Cons.prems by simp
  from Cons.IH [OF p1 fresh dist] obtain db' where
    "add_payments ?db1 ps = Returned () db'"
    "working db' = (working ?db1)\<lparr>payments := Some ((prows @ [Payment_to_database p]) @ map Payment_to_database ps)\<rparr>"
    by blast
  with step show ?case by (simp add: commit_def)
qed

text \<open>
  Claim C3: let the id of \<open>t\<close> not be stored, while the table of payments holds any
  rows. Let the payments attached to \<open>t\<close> carry the id of \<open>t\<close> and differ pairwise in
  trader id or payment id, as the primary key of the table demands. Then
  \<^verbatim>\<open>add_transaction(t)\<close> returns, and \<^verbatim>\<open>get_payments\<close> of the id returns exactly the
  rows of the payments of \<open>t\<close>, sorted by timestamp.
\<close>

theorem C3_add_transaction_replaces_payments:
  "transactions (working db) = Some trows \<and> payments (working db) = Some prows \<and>
   transaction_id t \<notin> set (map transactions_transaction_id trows) \<and>
   (\<forall>p\<in>set (payments_of t). payment_transaction_id p = transaction_id t) \<and>
   distinct (map (\<lambda>p. (payment_trader_id p, payment_payment_id p)) (payments_of t)) \<longrightarrow>
     (\<exists>db' ps. add_transaction db t = Returned () db' \<and>
        get_payments db' (transaction_id t) = Returned ps db' \<and>
        ps = sort_key payments_timestamp (map Payment_to_database (payments_of t)) \<and>
        mset ps = mset (map Payment_to_database (payments_of t)) \<and>
        sorted (map payments_timestamp ps))"
proof
  assume a: "transactions (working db) = Some trows \<and> payments (working db) = Some prows \<and>
   transaction_id t \<notin> set (map transactions_transaction_id trows) \<and>
   (\<forall>p\<in>set (payments_of t). payment_transaction_id p = transaction_id t) \<and>
   distinct (map (\<lambda>p. (payment_trader_id p, payment_payment_id p)) (payments_of t))"
  let ?tid = "transaction_id t"
  let ?kept = "filter (\<lambda>r. payments_transaction_id r \<noteq> ?tid) prows"
  let ?new = "map Payment_to_database (payments_of t)"
  let ?db0 = "commit (db\<lparr>working := (working db)\<lparr>transactions := Some (trows @ [Transaction_to_database t])\<rparr>\<rparr>)"
  let ?db1 = "?db0\<lparr>working := (working ?db0)\<lparr>payments := Some ?kept\<rparr>\<rparr>"
  have tid_row: "\<And>p. payments_transaction_id (Payment_to_database p) = payment_transaction_id p"
    by (simp add: Payment_to_database_def)
  have key: "\<And>p. payments_key (Payment_to_database p) =
      (payment_trader_id p, payment_payment_id p, payment_transaction_id p)"
    by (simp add: payments_key_def Payment_to_database_def)
  have eq: "add_transaction db t = add_payments ?db1 (payments_of t)"
    using a by (simp add: add_transaction_def sql_insert_def Transaction_to_database_def
        delete_payments_def sql_delete_def commit_def)
  have p1: "payments (working ?db1) = Some ?kept"
    by simp
  have fresh: "\<forall>p\<in>set (payments_of t). payments_key (Payment_to_database p) \<notin> set (map payments_key ?kept)"
    using a by (auto simp: payments_key_def tid_row)
  have "inj_on (\<lambda>p. (payment_trader_id p, payment_payment_id p, payment_transaction_id p)) (set (payments_of t))"
    using a by (auto simp: inj_on_def distinct_map)
  then have dist: "distinct (map (\<lambda>p. payments_key (Payment_to_database p)) (payments_of t))"
    using a by (auto simp: key distinct_map inj_on_def)
  from add_payments_ok [OF p1 fresh dist] obtain db' where
    ok: "add_payments ?db1 (payments_of t) = Returned () db'"
    and w: "working db' = (working ?db1)\<lparr>payments := Some (?kept @ ?new)\<rparr>"
    by blast
  have sel: "filter (\<lambda>r. payments_transaction_id r = ?tid) (?kept @ ?new) = ?new"
  proof -
    have "filter (\<lambda>r. payments_transaction_id r = ?tid) ?kept = []"
      by (induction prows) auto
    moreover have "filter (\<lambda>r. payments_transaction_id r = ?tid) ?new = ?new"
      using a by (auto simp: filter_id_conv tid_row)
    ultimately show ?thesis by simp
  qed
  have get: "get_payments db' ?tid = Returned (sort_key payments_timestamp ?new) db'"
    using sel by (simp add: get_payments_def sql_select_def w)
  from eq ok get
  show "\<exists>db' ps. add_transaction db t = Returned () db' \<and>
        get_payments db' (transaction_id t) = Returned ps db' \<and>
        ps = sort_key payments_timestamp (map Payment_to_database (payments_of t)) \<and>
        mset ps = mset (map Payment_to_database (payments_of t)) \<and>
        sorted (map payments_timestamp ps)"
    by simp
qed

text \<open>
  Payments with timestamps 1, 3 and 2, attached in that order, come back as 1, 2, 3.
\<close>

theorem C3_add_transaction_replaces_payments_witness:
  "(\<exists>db'. add_transaction fresh_store (example_transaction 100 3
        [example_payment ''p1'' 1, example_payment ''p3'' 3, example_payment ''p2'' 2]) = Returned () db' \<and>
      get_payments db' ''tx1'' = Returned
        [Payment_to_database (example_payment ''p1'' 1),
         Payment_to_database (example_payment ''p2'' 2),
         Payment_to_database (example_payment ''p3'' 3)] db')"
  using C3_add_transaction_replaces_payments [of fresh_store "[]" "[]" "example_transaction 100 3
        [example_payment ''p1'' 1, example_payment ''p3'' 3, example_payment ''p2'' 2]"]
  by (auto simp: fresh_store_def fresh_tables_def example_transaction_def example_payment_def
      Payment_to_database_def)

end
